theory Spec2Isabelle
  imports Main "HOL-Library.Word" "HOL-Library.Char_ord" "HOL-Library.List_Lexorder"
begin

section \<open>The kit worker (loolwsd/LOOLKit.cpp)\<close>

text \<open>
  A shallow embedding of the parts of \<^verbatim>\<open>loolwsd/LOOLKit.cpp\<close> that decide the
  properties below: the directory filter of the jail builder, the \<^verbatim>\<open>Document\<close>
  class (session map, purge, load, frames on the control socket, engine callbacks, the
  dispatch loop's callback branch) and the \<^verbatim>\<open>session\<close> branch of the control
  channel.
\<close>

subsection \<open>Jail builder: which directories are mirrored\<close>

datatype LinkOrCopyType = COPY_ALL | COPY_LO | COPY_NO_USR

text \<open>
  \<^verbatim>\<open>shouldCopyDir\<close> reads the global \<^verbatim>\<open>linkOrCopyType\<close>; here it is the first
  argument. \<^verbatim>\<open>strcmp(path, s) != 0\<close> on NUL-terminated strings is inequality of the
  strings. The source tests \<^verbatim>\<open>share/config/wizard\<close> twice, and so does the model.
\<close>

fun shouldCopyDir :: "LinkOrCopyType \<Rightarrow> string \<Rightarrow> bool" where
  "shouldCopyDir COPY_NO_USR path = (path \<noteq> ''usr'')"
| "shouldCopyDir COPY_LO path =
     (path \<noteq> ''program/wizards'' \<and>
      path \<noteq> ''sdk'' \<and>
      path \<noteq> ''share/basic'' \<and>
      path \<noteq> ''share/gallery'' \<and>
      path \<noteq> ''share/Scripts'' \<and>
      path \<noteq> ''share/template'' \<and>
      path \<noteq> ''share/config/wizard'' \<and>
      path \<noteq> ''share/config/wizard'')"
| "shouldCopyDir COPY_ALL path = True"

text \<open>
  The directory case (\<^verbatim>\<open>FTW_D\<close>) of \<^verbatim>\<open>linkOrCopyFunction\<close>, once \<^verbatim>\<open>stat\<close> has
  succeeded: a directory that is not to be copied makes \<^verbatim>\<open>nftw\<close> skip its subtree.
\<close>

datatype ftw_action = FTW_SKIP_SUBTREE | FTW_CONTINUE_COPY

definition linkOrCopyDir :: "LinkOrCopyType \<Rightarrow> string \<Rightarrow> ftw_action" where
  "linkOrCopyDir t relativeOldPath =
     (if \<not> shouldCopyDir t relativeOldPath then FTW_SKIP_SUBTREE else FTW_CONTINUE_COPY)"

subsection \<open>Strings, numbers and tokens\<close>

text \<open>
  The exceptions that the library calls of this file throw: \<^verbatim>\<open>std::invalid_argument\<close>
  and \<^verbatim>\<open>std::out_of_range\<close> (from \<^verbatim>\<open>std::stoi\<close> and \<^verbatim>\<open>std::string::substr\<close>),
  and the Poco exceptions of the tokenizer's index operator, the URI decoder, the JSON
  parser, the conversion of an absent JSON member and the socket. \<open>SIGSEGV\<close> is not an
  exception: it stands for a call through a null pointer, which no handler catches.
\<close>

datatype exception =
    invalid_argument
  | out_of_range
  | RangeException
  | SyntaxException
  | JSONException
  | InvalidAccessException
  | NetException
  | SIGSEGV

text \<open>\<^verbatim>\<open>std::to_string\<close> of an unsigned and of a signed integer: decimal digits.\<close>

fun to_string_nat :: "nat \<Rightarrow> string" where
  "to_string_nat n =
     (if n < 10 then [char_of (48 + n)]
      else to_string_nat (n div 10) @ [char_of (48 + n mod 10)])"

declare to_string_nat.simps [simp del]

definition to_string :: "int \<Rightarrow> string" where
  "to_string i = (if i < 0 then CHR ''-'' # to_string_nat (nat (- i)) else to_string_nat (nat i))"

text \<open>White space as \<^verbatim>\<open>isspace\<close> has it in the C locale: space and the bytes 9 to 13.\<close>

definition isSpace :: "char \<Rightarrow> bool" where
  "isSpace c = (c \<in> set [CHR '' '', CHR 0x09, CHR 0x0A, CHR 0x0B, CHR 0x0C, CHR 0x0D])"

definition isDigit :: "char \<Rightarrow> bool" where
  "isDigit c = (c \<in> set ''0123456789'')"

definition trim :: "string \<Rightarrow> string" where
  "trim s = rev (dropWhile isSpace (rev (dropWhile isSpace s)))"

definition digits_value :: "string \<Rightarrow> int" where
  "digits_value ds = foldl (\<lambda>a c. 10 * a + ((of_char c :: int) - 48)) 0 ds"

text \<open>
  \<^verbatim>\<open>std::stoi\<close>: leading white space, an optional sign, then decimal digits up to the
  first other character. No digit is \<^verbatim>\<open>std::invalid_argument\<close>; a value that does not
  fit a 32-bit \<^verbatim>\<open>int\<close> is \<^verbatim>\<open>std::out_of_range\<close>.
\<close>

definition stoi :: "string \<Rightarrow> exception + int" where
  "stoi str =
     (let s1 = dropWhile isSpace str;
          negative = (s1 \<noteq> [] \<and> hd s1 = CHR ''-'');
          s2 = (if s1 \<noteq> [] \<and> (hd s1 = CHR ''-'' \<or> hd s1 = CHR ''+'') then tl s1 else s1);
          ds = takeWhile isDigit s2;
          v = (if negative then - digits_value ds else digits_value ds)
      in if ds = [] then Inl invalid_argument
         else if v < - (2 ^ 31) \<or> 2 ^ 31 - 1 < v then Inl out_of_range
         else Inr v)"

text \<open>
  \<^verbatim>\<open>Poco::StringTokenizer\<close> (a library class): the loop of its constructor over the
  characters of the string, with the token being collected and the flag that the last
  character was a separator; then the token left at the end. \<^verbatim>\<open>TOK_TRIM\<close> trims each
  token, \<^verbatim>\<open>TOK_IGNORE_EMPTY\<close> drops the empty ones.
\<close>

fun tokenize :: "string \<Rightarrow> bool \<Rightarrow> bool \<Rightarrow> string \<Rightarrow> string \<Rightarrow> bool \<Rightarrow> string list" where
  "tokenize separators ignoreEmpty doTrim [] token lastToken =
     (if token \<noteq> [] then
        (let t = (if doTrim then trim token else token) in if t \<noteq> [] then [t] else [])
      else if lastToken then [[]] else [])"
| "tokenize separators ignoreEmpty doTrim (c # cs) token lastToken =
     (if c \<in> set separators then
        (let t = (if doTrim then trim token else token)
         in (if t \<noteq> [] \<or> \<not> ignoreEmpty then [t] else []) @
            tokenize separators ignoreEmpty doTrim cs [] (if \<not> ignoreEmpty then True else lastToken))
      else tokenize separators ignoreEmpty doTrim cs (token @ [c]) False)"

definition StringTokenizer :: "string \<Rightarrow> string \<Rightarrow> bool \<Rightarrow> bool \<Rightarrow> string list" where
  "StringTokenizer str separators ignoreEmpty doTrim =
     tokenize separators ignoreEmpty doTrim str [] False"

text \<open>\<^verbatim>\<open>tokens[i]\<close> throws \<^verbatim>\<open>Poco::RangeException\<close> when there is no such token.\<close>

definition token_at :: "string list \<Rightarrow> nat \<Rightarrow> exception + string" where
  "token_at tokens i = (if i < length tokens then Inr (tokens ! i) else Inl RangeException)"

text \<open>\<^verbatim>\<open>std::string::substr(pos)\<close> throws when \<open>pos\<close> is beyond the end.\<close>

definition substr :: "string \<Rightarrow> nat \<Rightarrow> exception + string" where
  "substr str pos = (if length str < pos then Inl out_of_range else Inr (drop pos str))"

text \<open>
  Modelled from the spec: \<^verbatim>\<open>LOOLProtocol::getFirstToken\<close> is declared in
  LOOLProtocol.hpp, outside this file. The spec's dispatch loop matches a first token
  \<^verbatim>\<open>child-<viewId>\<close>: the function gives the part of the string before the first
  delimiter.
\<close>

definition getFirstToken :: "string \<Rightarrow> char \<Rightarrow> string" where
  "getFirstToken message delim = takeWhile (\<lambda>c. c \<noteq> delim) message"

subsection \<open>Constants declared in headers outside this file\<close>

text \<open>
  \<^verbatim>\<open>SMALL_MESSAGE_SIZE\<close> (Common.hpp), \<^verbatim>\<open>Application::EXIT_OK\<close> (Poco) and the
  callback types of LibreOfficeKitEnums.h are used by this file and declared elsewhere.
  They are a parameter \<open>K\<close> of every function that reads one.
\<close>

record kit_consts =
  SMALL_MESSAGE_SIZE :: nat
  EXIT_OK :: int
  LOK_CALLBACK_INVALIDATE_VISIBLE_CURSOR :: int
  LOK_CALLBACK_CELL_CURSOR :: int
  LOK_CALLBACK_DOCUMENT_PASSWORD :: int
  LOK_CALLBACK_DOCUMENT_PASSWORD_TO_MODIFY :: int
  LOK_CALLBACK_INVALIDATE_VIEW_CURSOR :: int
  LOK_CALLBACK_CELL_VIEW_CURSOR :: int

subsection \<open>Child sessions and the session map\<close>

text \<open>
  \<^verbatim>\<open>ChildSession\<close> is declared in ChildSession.hpp. This file constructs it from a
  session id and the jail id, reads \<^verbatim>\<open>getId\<close>, \<^verbatim>\<open>getViewId\<close> and
  \<^verbatim>\<open>isCloseFrame\<close>, and calls \<^verbatim>\<open>setViewId\<close>, \<^verbatim>\<open>loKitCallback\<close> and
  \<^verbatim>\<open>sendTextFrame\<close>. The record holds what those read and write; the two calls into
  the session are recorded in the order they are made.
\<close>

record ChildSession =
  getId :: string
  getJailId :: string
  getViewId :: int
  isCloseFrame :: bool
  loKitCallbacks :: "(int \<times> string) list"
  textFrames :: "string list"

definition loKitCallback :: "int \<Rightarrow> string \<Rightarrow> ChildSession \<Rightarrow> ChildSession" where
  "loKitCallback type payload s = s\<lparr>loKitCallbacks := loKitCallbacks s @ [(type, payload)]\<rparr>"

definition session_sendTextFrame :: "string \<Rightarrow> ChildSession \<Rightarrow> ChildSession" where
  "session_sendTextFrame text s = s\<lparr>textFrames := textFrames s @ [text]\<rparr>"

definition setViewId :: "int \<Rightarrow> ChildSession \<Rightarrow> ChildSession" where
  "setViewId v s = s\<lparr>getViewId := v\<rparr>"

text \<open>
  \<^verbatim>\<open>_sessions\<close> is a \<^verbatim>\<open>std::map<std::string, std::shared_ptr<ChildSession>>\<close>: an
  association list in the map's iteration order, which is the order of the keys
  (\<^verbatim>\<open>std::string\<close> compares bytes lexicographically, as \<open><\<close> on \<open>string\<close> does here).
  Only \<^verbatim>\<open>createSession\<close> inserts, and it inserts the pointer \<^verbatim>\<open>std::make_shared\<close>
  returned, so no entry holds a null pointer.
\<close>

type_synonym session_map = "(string \<times> ChildSession) list"

fun emplace :: "string \<Rightarrow> ChildSession \<Rightarrow> session_map \<Rightarrow> session_map \<times> bool" where
  "emplace k v [] = ([(k, v)], True)"
| "emplace k v ((k', v') # m) =
     (if k = k' then ((k', v') # m, False)
      else if k < k' then ((k, v) # (k', v') # m, True)
      else (case emplace k v m of (m', b) \<Rightarrow> ((k', v') # m', b)))"

datatype PasswordType = ToView | ToModify

subsection \<open>The control socket\<close>

text \<open>
  \<^verbatim>\<open>WebSocket::sendFrame\<close> (Poco) writes one frame or throws. The socket is the list of
  frames written so far and the number of further writes that will succeed, which the
  environment decides.
\<close>

datatype frame = FRAME_TEXT string | FRAME_BINARY string

record socket =
  written :: "frame list"
  writable :: nat

definition sendFrame :: "frame \<Rightarrow> socket \<Rightarrow> socket option" where
  "sendFrame f s =
     (if writable s = 0 then None
      else Some (s\<lparr>written := written s @ [f], writable := writable s - 1\<rparr>))"

subsection \<open>The tile queue and the engine, as this file uses them\<close>

text \<open>
  \<^verbatim>\<open>TileQueue\<close> is declared elsewhere; this file calls \<^verbatim>\<open>put\<close>,
  \<^verbatim>\<open>updateCursorPosition\<close> and \<^verbatim>\<open>removeCursorPosition\<close> on it. The queue is the
  list of those calls in order.
\<close>

datatype queue_call =
    Put string
  | UpdateCursorPosition int int int int int int
  | RemoveCursorPosition int

text \<open>
  Calls into the engine (\<^verbatim>\<open>lok::Office\<close>, \<^verbatim>\<open>lok::Document\<close>) are recorded in
  order. \<^verbatim>\<open>SetDocumentPassword url None\<close> is the call with a null password.
\<close>

datatype engine_call =
    RegisterGlobalCallback
  | SetOptionalFeatures
  | DocumentLoad string
  | SetDocumentPassword string "string option"
  | CreateView
  | InitializeForRendering string
  | RegisterViewCallback int

text \<open>
  \<^verbatim>\<open>_loKitDocument\<close> is a \<^verbatim>\<open>std::shared_ptr<lok::Document>\<close>: \<open>None\<close> is the null
  pointer, and \<open>Some h\<close> a wrapper whose \<^verbatim>\<open>get()\<close> is the engine's handle \<open>h\<close>, itself
  null (\<open>None\<close>) or not.
\<close>

type_synonym lok_Document = "nat option"

subsection \<open>The Document\<close>

text \<open>
  The members of \<^verbatim>\<open>class Document\<close>. \<^verbatim>\<open>_isLoading\<close> and \<^verbatim>\<open>_clientViews\<close> are
  \<^verbatim>\<open>std::atomic_size_t\<close>, 64 bits wide; \<open>cvLoadingNotified\<close> counts the calls of
  \<^verbatim>\<open>_cvLoading.notify_one()\<close>.
\<close>

record Document =
  jailId :: string
  docKey :: string
  url :: string
  jailedUrl :: string
  renderOpts :: string
  loKitDocument :: "lok_Document option"
  tileQueue :: "queue_call list"
  ws :: socket
  docPassword :: string
  haveDocPassword :: bool
  isDocPasswordProtected :: bool
  docPasswordType :: PasswordType
  isLoading :: "64 word"
  cvLoadingNotified :: nat
  viewIdToCallbackDescr :: "int list"
  sessions :: session_map
  clientViews :: "64 word"
  engine :: "engine_call list"

text \<open>The constructor's member initialisers.\<close>

definition new_Document :: "string \<Rightarrow> string \<Rightarrow> string \<Rightarrow> socket \<Rightarrow> Document" where
  "new_Document jail key u sock =
     \<lparr>jailId = jail, docKey = key, url = u, jailedUrl = [], renderOpts = [],
      loKitDocument = None, tileQueue = [], ws = sock, docPassword = [],
      haveDocPassword = False, isDocPasswordProtected = False, docPasswordType = ToView,
      isLoading = 0, cvLoadingNotified = 0, viewIdToCallbackDescr = [], sessions = [],
      clientViews = 0, engine = []\<rparr>"

text \<open>
  \<^verbatim>\<open>createSession\<close>. \<open>init\<close> is what the \<^verbatim>\<open>ChildSession\<close> constructor (not in this
  file) gives the members other than the two it is passed. The handler for
  \<^verbatim>\<open>std::exception\<close> returns false; nothing in the body throws but a failed allocation,
  which the model does not have.
\<close>

definition createSession :: "ChildSession \<Rightarrow> string \<Rightarrow> Document \<Rightarrow> bool \<times> Document" where
  "createSession init sessionId d =
     (case map_of (sessions d) sessionId of
        Some it \<Rightarrow> (True, d)
      | None \<Rightarrow>
          (let session = init\<lparr>getId := sessionId, getJailId := jailId d\<rparr>
           in (True, d\<lparr>sessions := fst (emplace sessionId session (sessions d))\<rparr>)))"

text \<open>
  A function of this file either returns or ends the process (\<^verbatim>\<open>std::_Exit\<close>).
\<close>

datatype 'a result = Exit int | Return 'a Document

text \<open>The two loops of \<^verbatim>\<open>purgeSessions\<close> over \<^verbatim>\<open>_sessions\<close>.\<close>

fun countRunning :: "session_map \<Rightarrow> nat" where
  "countRunning [] = 0"
| "countRunning ((k, s) # m) = (if \<not> isCloseFrame s then Suc (countRunning m) else countRunning m)"

fun eraseClosed :: "session_map \<Rightarrow> session_map" where
  "eraseClosed [] = []"
| "eraseClosed ((k, s) # m) = (if isCloseFrame s then eraseClosed m else (k, s) # eraseClosed m)"

text \<open>
  \<^verbatim>\<open>purgeSessions\<close>. \<open>try_lock\<close> is the result of \<^verbatim>\<open>lock.try_lock()\<close>. The function
  returns a \<^verbatim>\<open>size_t\<close>, so \<^verbatim>\<open>return -1\<close> converts \<open>-1\<close> to 64 unsigned bits.
\<close>

definition purgeSessions :: "kit_consts \<Rightarrow> bool \<Rightarrow> Document \<Rightarrow> (64 word) result" where
  "purgeSessions K try_lock d =
     (if \<not> try_lock then Return (- 1) d
      else
        (let numRunning = countRunning (sessions d);
             sessions' = (if numRunning > 0 then eraseClosed (sessions d) else sessions d);
             num_sessions = length sessions'
         in if numRunning = 0 then Exit (EXIT_OK K)
            else Return (of_nat num_sessions) (d\<lparr>sessions := sessions'\<rparr>)))"

definition hasSessions :: "kit_consts \<Rightarrow> bool \<Rightarrow> Document \<Rightarrow> bool result" where
  "hasSessions K try_lock d =
     (case purgeSessions K try_lock d of
        Exit c \<Rightarrow> Exit c
      | Return n d' \<Rightarrow> Return (n \<noteq> 0) d')"

definition canDiscard :: "kit_consts \<Rightarrow> bool \<Rightarrow> Document \<Rightarrow> bool result" where
  "canDiscard K try_lock d =
     (case hasSessions K try_lock d of
        Exit c \<Rightarrow> Exit c
      | Return b d' \<Rightarrow> Return (\<not> b) d')"

subsection \<open>Frames on the control socket\<close>

definition nextmessage :: "nat \<Rightarrow> frame" where
  "nextmessage len = FRAME_TEXT (''nextmessage: size='' @ to_string_nat len)"

text \<open>
  The end of \<^verbatim>\<open>renderTile\<close>, \<^verbatim>\<open>renderCombinedTiles\<close> and \<^verbatim>\<open>sendTextFrame\<close>, which
  the source writes out three times: the sentinel when the length exceeds
  \<^verbatim>\<open>SMALL_MESSAGE_SIZE\<close>, then the frame. The result is the socket and whether both
  writes succeeded; a write that throws ends the function at that point.
\<close>

definition frame_bytes :: "frame \<Rightarrow> string" where
  "frame_bytes f = (case f of FRAME_TEXT b \<Rightarrow> b | FRAME_BINARY b \<Rightarrow> b)"

definition sendWithSentinel :: "kit_consts \<Rightarrow> frame \<Rightarrow> socket \<Rightarrow> bool \<times> socket" where
  "sendWithSentinel K f s =
     (let len = length (frame_bytes f)
      in case (if len > SMALL_MESSAGE_SIZE K then sendFrame (nextmessage len) s else Some s) of
           None \<Rightarrow> (False, s)
         | Some s1 \<Rightarrow>
             (case sendFrame f s1 of
                None \<Rightarrow> (False, s1)
              | Some s2 \<Rightarrow> (True, s2)))"

text \<open>
  \<^verbatim>\<open>sendTextFrame\<close>. \<open>badSocket\<close> is \<^verbatim>\<open>!_ws || _ws->poll(Timespan(0), SELECT_ERROR)\<close>.
  The handler for the Poco exception returns false.
\<close>

definition sendTextFrame :: "kit_consts \<Rightarrow> bool \<Rightarrow> string \<Rightarrow> Document \<Rightarrow> bool \<times> Document" where
  "sendTextFrame K badSocket message d =
     (if badSocket then (False, d)
      else (case sendWithSentinel K (FRAME_TEXT message) (ws d) of
              (ok, s) \<Rightarrow> (ok, d\<lparr>ws := s\<rparr>)))"

text \<open>
  \<^verbatim>\<open>renderTile\<close>, in the build without \<^verbatim>\<open>ENABLE_DEBUG\<close>. \<open>tileMsg\<close> is
  \<^verbatim>\<open>tile.serialize("tile:")\<close> of the parsed request, \<open>viewsCount\<close> the engine's
  \<^verbatim>\<open>getViewsCount()\<close>, and \<open>png\<close> the bytes \<^verbatim>\<open>png::encodeBufferToPNG\<close> appends to
  the output after painting (\<open>None\<close> when it returns false). The function has no handler:
  the result says which exception left it, if any.
\<close>

definition renderTile ::
  "kit_consts \<Rightarrow> string \<Rightarrow> int \<Rightarrow> string option \<Rightarrow> Document \<Rightarrow> exception option \<times> Document" where
  "renderTile K tileMsg viewsCount png d =
     (let response = tileMsg @ [CHR 0x0A]
      in case loKitDocument d of
           None \<Rightarrow> (None, d)
         | Some None \<Rightarrow> (Some SIGSEGV, d)
         | Some (Some h) \<Rightarrow>
             (if viewsCount \<le> 0 then (None, d)
              else (case png of
                      None \<Rightarrow> (None, d)
                    | Some bytes \<Rightarrow>
                        (case sendWithSentinel K (FRAME_BINARY (response @ bytes)) (ws d) of
                           (ok, s) \<Rightarrow> (if ok then None else Some NetException, d\<lparr>ws := s\<rparr>)))))"

text \<open>
  The loop of \<^verbatim>\<open>renderCombinedTiles\<close> over the tiles: each sub-image is appended to
  the output and its size recorded; a failed encoding ends the function.
\<close>

fun encodeTiles :: "string option list \<Rightarrow> string \<Rightarrow> nat list \<Rightarrow> (string \<times> nat list) option" where
  "encodeTiles [] output imgSizes = Some (output, imgSizes)"
| "encodeTiles (None # pngs) output imgSizes = None"
| "encodeTiles (Some bytes # pngs) output imgSizes =
     encodeTiles pngs (output @ bytes) (imgSizes @ [length bytes])"

text \<open>
  \<^verbatim>\<open>renderCombinedTiles\<close>, in the build without \<^verbatim>\<open>ENABLE_DEBUG\<close>. \<open>pngs\<close> are the
  results of \<^verbatim>\<open>png::encodeSubBufferToPNG\<close> for the tiles in order, and \<open>serialize\<close> is
  \<^verbatim>\<open>tileCombined.serialize("tilecombine:")\<close> as a function of the image sizes set.
\<close>

definition renderCombinedTiles ::
  "kit_consts \<Rightarrow> (nat list \<Rightarrow> string) \<Rightarrow> int \<Rightarrow> string option list \<Rightarrow> Document
     \<Rightarrow> exception option \<times> Document" where
  "renderCombinedTiles K serialize viewsCount pngs d =
     (case loKitDocument d of
        None \<Rightarrow> (None, d)
      | Some None \<Rightarrow> (Some SIGSEGV, d)
      | Some (Some h) \<Rightarrow>
          (if viewsCount \<le> 0 then (None, d)
           else (case encodeTiles pngs [] [] of
                   None \<Rightarrow> (None, d)
                 | Some (output, imgSizes) \<Rightarrow>
                     (let tileMsg = serialize imgSizes @ [CHR 0x0A]
                      in case sendWithSentinel K (FRAME_BINARY (tileMsg @ output)) (ws d) of
                           (ok, s) \<Rightarrow> (if ok then None else Some NetException, d\<lparr>ws := s\<rparr>)))))"

subsection \<open>Engine callbacks\<close>

definition setDocumentPassword :: "kit_consts \<Rightarrow> int \<Rightarrow> Document \<Rightarrow> Document" where
  "setDocumentPassword K nPasswordType d =
     (if isDocPasswordProtected d \<and> haveDocPassword d then
        d\<lparr>engine := engine d @ [SetDocumentPassword (jailedUrl d) None]\<rparr>
      else
        (let d1 = d\<lparr>isDocPasswordProtected := True\<rparr>;
             d2 = (if nPasswordType = LOK_CALLBACK_DOCUMENT_PASSWORD K then
                     d1\<lparr>docPasswordType := ToView\<rparr>
                   else if nPasswordType = LOK_CALLBACK_DOCUMENT_PASSWORD_TO_MODIFY K then
                     d1\<lparr>docPasswordType := ToModify\<rparr>
                   else d1)
         in if haveDocPassword d2 then
              d2\<lparr>engine := engine d2 @ [SetDocumentPassword (jailedUrl d2) (Some (docPassword d2))]\<rparr>
            else d2\<lparr>engine := engine d2 @ [SetDocumentPassword (jailedUrl d2) None]\<rparr>))"

definition broadcastCallbackToClients :: "int \<Rightarrow> string \<Rightarrow> Document \<Rightarrow> Document" where
  "broadcastCallbackToClients nType payload d =
     d\<lparr>tileQueue := tileQueue d @ [Put (''callback -1 '' @ to_string nType @ '' '' @ payload)]\<rparr>"

text \<open>A null \<^verbatim>\<open>pPayload\<close> is \<open>None\<close>.\<close>

definition payload_of :: "string option \<Rightarrow> string" where
  "payload_of pPayload = (case pPayload of None \<Rightarrow> ''(nil)'' | Some p \<Rightarrow> p)"

definition GlobalCallback :: "kit_consts \<Rightarrow> bool \<Rightarrow> int \<Rightarrow> string option \<Rightarrow> Document \<Rightarrow> Document" where
  "GlobalCallback K TerminationFlag nType pPayload d =
     (if TerminationFlag then d
      else if nType = LOK_CALLBACK_DOCUMENT_PASSWORD_TO_MODIFY K \<or>
              nType = LOK_CALLBACK_DOCUMENT_PASSWORD K then
        setDocumentPassword K nType d
      else broadcastCallbackToClients nType (payload_of pPayload) d)"

text \<open>
  The block that \<^verbatim>\<open>ViewCallback\<close> has in both of its branches: the text is split at
  commas, and four tokens are read with \<^verbatim>\<open>std::stoi\<close>; any other number of tokens (the
  payload may be EMPTY) gives no rectangle.
\<close>

definition cursorRectangle :: "string \<Rightarrow> exception + (int \<times> int \<times> int \<times> int) option" where
  "cursorRectangle text =
     (let tokens = StringTokenizer text '','' True True
      in if length tokens = 4 then
           (case stoi (tokens ! 0) of Inl e \<Rightarrow> Inl e | Inr cursorX \<Rightarrow>
            case stoi (tokens ! 1) of Inl e \<Rightarrow> Inl e | Inr cursorY \<Rightarrow>
            case stoi (tokens ! 2) of Inl e \<Rightarrow> Inl e | Inr cursorWidth \<Rightarrow>
            case stoi (tokens ! 3) of Inl e \<Rightarrow> Inl e | Inr cursorHeight \<Rightarrow>
              Inr (Some (cursorX, cursorY, cursorWidth, cursorHeight)))
         else Inr None)"

text \<open>
  \<^verbatim>\<open>ViewCallback\<close> for the descriptor \<^verbatim>\<open>{Doc, ViewId}\<close>. \<open>parse\<close> is the Poco JSON
  parser followed by \<^verbatim>\<open>extract<Object::Ptr>\<close>: \<open>None\<close> when either throws, else the
  object as a map from a member's name to its \<^verbatim>\<open>toString()\<close>; the conversion of an
  absent member throws. The function has no handler, so an exception leaves it before the
  message is put on the queue.
\<close>

definition ViewCallback ::
  "kit_consts \<Rightarrow> (string \<Rightarrow> (string \<Rightarrow> string option) option) \<Rightarrow> bool \<Rightarrow> int \<Rightarrow> int
     \<Rightarrow> string option \<Rightarrow> Document \<Rightarrow> exception + Document" where
  "ViewCallback K parse TerminationFlag ViewId nType pPayload d =
     (if TerminationFlag then Inr d
      else
        (let payload = payload_of pPayload;
             updated =
               (if nType = LOK_CALLBACK_INVALIDATE_VISIBLE_CURSOR K \<or>
                   nType = LOK_CALLBACK_CELL_CURSOR K then
                  (case cursorRectangle payload of
                     Inl e \<Rightarrow> Inl e
                   | Inr None \<Rightarrow> Inr (tileQueue d)
                   | Inr (Some (x, y, w, h)) \<Rightarrow>
                       Inr (tileQueue d @ [UpdateCursorPosition 0 0 x y w h]))
                else if nType = LOK_CALLBACK_INVALIDATE_VIEW_CURSOR K \<or>
                        nType = LOK_CALLBACK_CELL_VIEW_CURSOR K then
                  (case parse payload of
                     None \<Rightarrow> Inl JSONException
                   | Some command \<Rightarrow>
                       (case command ''viewId'' of None \<Rightarrow> Inl InvalidAccessException | Some viewId \<Rightarrow>
                        case command ''part'' of None \<Rightarrow> Inl InvalidAccessException | Some part \<Rightarrow>
                        case command ''rectangle'' of None \<Rightarrow> Inl InvalidAccessException | Some text \<Rightarrow>
                          (case cursorRectangle text of
                             Inl e \<Rightarrow> Inl e
                           | Inr None \<Rightarrow> Inr (tileQueue d)
                           | Inr (Some (x, y, w, h)) \<Rightarrow>
                               (case stoi viewId of Inl e \<Rightarrow> Inl e | Inr v \<Rightarrow>
                                case stoi part of Inl e \<Rightarrow> Inl e | Inr p \<Rightarrow>
                                  Inr (tileQueue d @ [UpdateCursorPosition v p x y w h])))))
                else Inr (tileQueue d))
         in case updated of
              Inl e \<Rightarrow> Inl e
            | Inr q \<Rightarrow>
                Inr (d\<lparr>tileQueue :=
                  q @ [Put (''callback '' @ to_string ViewId @ '' '' @ to_string nType @ '' '' @ payload)]\<rparr>)))"

subsection \<open>Loading\<close>

text \<open>
  What the engine and the JSON library answer during one \<^verbatim>\<open>load\<close>: whether the engine
  has \<^verbatim>\<open>registerCallback\<close>, the global callbacks it makes while \<^verbatim>\<open>documentLoad\<close>
  runs (type and payload) and the pointer \<^verbatim>\<open>documentLoad\<close> returns, the view id
  \<^verbatim>\<open>getView()\<close> returns, and the string of the rendering options built from
  \<^verbatim>\<open>_renderOpts\<close> and the user name (\<open>None\<close> when the parser or the URI decoder throws).
\<close>

record load_env =
  hasRegisterCallback :: bool
  documentLoadCallbacks :: "(int \<times> string option) list"
  documentLoadResult :: "lok_Document option"
  getView :: int
  renderOptions :: "string \<Rightarrow> string \<Rightarrow> string option"

text \<open>A session is shared with the map, so a call on it changes the map's entry.\<close>

definition update_session :: "string \<Rightarrow> (ChildSession \<Rightarrow> ChildSession) \<Rightarrow> session_map \<Rightarrow> session_map" where
  "update_session sessionId f m = map (\<lambda>(k, s). if k = sessionId then (k, f s) else (k, s)) m"

definition passwordFrame :: "PasswordType \<Rightarrow> string" where
  "passwordFrame t =
     ''passwordrequired:'' @ (case t of ToView \<Rightarrow> ''to-view'' | ToModify \<Rightarrow> ''to-modify'')"

text \<open>
  The part of \<^verbatim>\<open>load\<close> after the two branches: rendering options, the view id stored
  on the session, the callback descriptor (\<^verbatim>\<open>emplace\<close> keeps an entry that exists) and
  the view callback.
\<close>

definition initView ::
  "load_env \<Rightarrow> string \<Rightarrow> string \<Rightarrow> Document \<Rightarrow> (exception + lok_Document option) \<times> Document" where
  "initView env sessionId userName d =
     (case renderOptions env (renderOpts d) userName of
        None \<Rightarrow> (Inl JSONException, d)
      | Some opts \<Rightarrow>
          (let viewId = getView env
           in (Inr (loKitDocument d),
               d\<lparr>engine := engine d @ [InitializeForRendering opts, RegisterViewCallback viewId],
                 sessions := update_session sessionId (setViewId viewId) (sessions d),
                 viewIdToCallbackDescr :=
                   (if viewId \<in> set (viewIdToCallbackDescr d) then viewIdToCallbackDescr d
                    else viewIdToCallbackDescr d @ [viewId])\<rparr>)))"

text \<open>
  \<^verbatim>\<open>load\<close>. The result is the pointer returned, or the exception that left the function,
  and the Document as the call leaves it.
\<close>

definition load ::
  "kit_consts \<Rightarrow> load_env \<Rightarrow> bool \<Rightarrow> string \<Rightarrow> string \<Rightarrow> string \<Rightarrow> string \<Rightarrow> string \<Rightarrow> bool
     \<Rightarrow> Document \<Rightarrow> (exception + lok_Document option) \<times> Document" where
  "load K env TerminationFlag sessionId uri userName docPassword' renderOpts' haveDocPassword' d =
     (case map_of (sessions d) sessionId of
        None \<Rightarrow> (Inr None, d)
      | Some session \<Rightarrow>
          (case loKitDocument d of
             None \<Rightarrow>
               (let d1 = (if hasRegisterCallback env
                          then d\<lparr>engine := engine d @ [RegisterGlobalCallback, SetOptionalFeatures]\<rparr>
                          else d);
                    d2 = d1\<lparr>haveDocPassword := haveDocPassword', docPassword := docPassword',
                            jailedUrl := uri, isDocPasswordProtected := False\<rparr>;
                    d3 = foldl (\<lambda>doc (nType, pPayload). GlobalCallback K TerminationFlag nType pPayload doc)
                           (d2\<lparr>engine := engine d2 @ [DocumentLoad uri]\<rparr>)
                           (if hasRegisterCallback env then documentLoadCallbacks env else []);
                    d4 = d3\<lparr>loKitDocument := documentLoadResult env\<rparr>
                in case loKitDocument d4 of
                     None \<Rightarrow> (Inl SIGSEGV, d4)
                   | Some None \<Rightarrow>
                       (if isDocPasswordProtected d4 then
                          (if \<not> haveDocPassword d4 then
                             (Inr None, d4\<lparr>sessions := update_session sessionId
                                (session_sendTextFrame
                                   (''error: cmd=load kind='' @ passwordFrame (docPasswordType d4)))
                                (sessions d4)\<rparr>)
                           else
                             (Inr None, d4\<lparr>sessions := update_session sessionId
                                (session_sendTextFrame ''error: cmd=load kind=wrongpassword'')
                                (sessions d4)\<rparr>))
                        else (Inr None, d4))
                   | Some (Some h) \<Rightarrow> initView env sessionId userName (d4\<lparr>renderOpts := renderOpts'\<rparr>))
           | Some doc \<Rightarrow>
               (if isDocPasswordProtected d \<and> \<not> haveDocPassword' then
                  (Inr None, d\<lparr>sessions := update_session sessionId
                     (session_sendTextFrame
                        (''error: cmd=load kind='' @ passwordFrame (docPasswordType d)))
                     (sessions d)\<rparr>)
                else if isDocPasswordProtected d \<and> docPassword' \<noteq> docPassword d then
                  (Inr None, d\<lparr>sessions := update_session sessionId
                     (session_sendTextFrame ''error: cmd=load kind=wrongpassword'')
                     (sessions d)\<rparr>)
                else
                  (case doc of
                     None \<Rightarrow> (Inl SIGSEGV, d)
                   | Some h \<Rightarrow>
                       initView env sessionId userName (d\<lparr>engine := engine d @ [CreateView]\<rparr>)))))"

text \<open>
  \<^verbatim>\<open>onLoad\<close> either waits on \<^verbatim>\<open>_cvLoading\<close> (while \<^verbatim>\<open>_isLoading\<close> is not zero),
  returns a pointer, or ends in a call through a null pointer. It does not use what
  \<^verbatim>\<open>load\<close> returns: after the call it tests \<^verbatim>\<open>_loKitDocument\<close>. The handler for
  \<^verbatim>\<open>std::exception\<close> returns null.
\<close>

datatype onLoad_result =
    Waits Document
  | Returns "lok_Document option" Document
  | Crashes Document

definition onLoad ::
  "kit_consts \<Rightarrow> load_env \<Rightarrow> bool \<Rightarrow> string \<Rightarrow> string \<Rightarrow> string \<Rightarrow> string \<Rightarrow> string \<Rightarrow> bool
     \<Rightarrow> Document \<Rightarrow> onLoad_result" where
  "onLoad K env TerminationFlag sessionId uri userName docPassword' renderOpts' haveDocPassword' d =
     (if isLoading d \<noteq> 0 then Waits d
      else
        (let d1 = d\<lparr>isLoading := isLoading d + 1\<rparr>
         in case load K env TerminationFlag sessionId uri userName docPassword' renderOpts'
                   haveDocPassword' d1 of
              (Inl SIGSEGV, d2) \<Rightarrow> Crashes d2
            | (Inl exc, d2) \<Rightarrow> Returns None d2
            | (Inr loaded, d2) \<Rightarrow>
                (if loKitDocument d2 = None \<or> loKitDocument d2 = Some None then Returns None d2
                 else Returns (loKitDocument d2)
                        (d2\<lparr>clientViews := clientViews d2 + 1,
                            isLoading := isLoading d2 - 1,
                            cvLoadingNotified := Suc (cvLoadingNotified d2)\<rparr>))))"

subsection \<open>The dispatch loop: a callback message\<close>

text \<open>
  The loop of \<^verbatim>\<open>run\<close> over \<^verbatim>\<open>_sessions\<close> for a callback. It leaves at the first
  session whose view id is the message's, or at the first session at all when the view id
  is \<open>-1\<close> (the \<^verbatim>\<open>break\<close> ends the loop in both branches of the inner test). The result
  is \<^verbatim>\<open>isFound\<close> and the sessions.
\<close>

fun forwardCallback :: "int \<Rightarrow> int \<Rightarrow> string \<Rightarrow> session_map \<Rightarrow> bool \<times> session_map" where
  "forwardCallback viewId type payload [] = (False, [])"
| "forwardCallback viewId type payload ((k, session) # m) =
     (if getViewId session = viewId \<or> viewId = - 1 then
        (if \<not> isCloseFrame session then (True, (k, loKitCallback type payload session) # m)
         else (False, (k, session) # m))
      else (case forwardCallback viewId type payload m of
              (isFound, m') \<Rightarrow> (isFound, (k, session) # m')))"

text \<open>Which branch of \<^verbatim>\<open>run\<close> a first token selects.\<close>

datatype branch = Eof | Tile | TileCombine | Child | Callback | Unexpected

definition run_branch :: "string \<Rightarrow> branch" where
  "run_branch token0 =
     (if token0 = ''eof'' then Eof
      else if token0 = ''tile'' then Tile
      else if token0 = ''tilecombine'' then TileCombine
      else if getFirstToken token0 CHR ''-'' = ''child'' then Child
      else if token0 = ''callback'' then Callback
      else Unexpected)"

text \<open>
  The callback branch of \<^verbatim>\<open>run\<close> for a dequeued message. An exception ends the loop
  (the handler is outside of it).
\<close>

definition run_callback :: "string \<Rightarrow> Document \<Rightarrow> exception + Document" where
  "run_callback message d =
     (let tokens = StringTokenizer message '' '' False False
      in case token_at tokens 1 of Inl e \<Rightarrow> Inl e | Inr token1 \<Rightarrow>
         case stoi token1 of Inl e \<Rightarrow> Inl e | Inr viewId \<Rightarrow>
         case token_at tokens 2 of Inl e \<Rightarrow> Inl e | Inr token2 \<Rightarrow>
         case stoi token2 of Inl e \<Rightarrow> Inl e | Inr type \<Rightarrow>
         case substr message (length (tokens ! 0) + length token1 + length token2 + 3) of
           Inl e \<Rightarrow> Inl e
         | Inr payload \<Rightarrow>
             Inr (d\<lparr>sessions := snd (forwardCallback viewId type payload (sessions d))\<rparr>))"

subsection \<open>The control channel: a session message\<close>

text \<open>
  The process holds at most one Document (the global \<^verbatim>\<open>document\<close>) and the termination
  flag.
\<close>

record worker =
  document :: "Document option"
  TerminationFlag :: bool

text \<open>
  The test \<^verbatim>\<open>url == document->getUrl() && document->createSession(sessionId)\<close>:
  \<^verbatim>\<open>createSession\<close> is called only when the URLs are equal.
\<close>

datatype validation = UrlMismatch | CreateSession bool

text \<open>
  The \<^verbatim>\<open>session\<close> branch of the handler in \<^verbatim>\<open>lokit_main\<close>, for the tokens of the
  message. \<open>decode\<close> is \<^verbatim>\<open>Poco::URI::decode\<close> (\<open>None\<close> when it throws), \<open>jail\<close> the jail
  id (the process id) and \<open>sock\<close> the control socket handed to a new Document.
\<close>

definition session_message ::
  "(string \<Rightarrow> string option) \<Rightarrow> ChildSession \<Rightarrow> string \<Rightarrow> socket \<Rightarrow> string list \<Rightarrow> worker
     \<Rightarrow> exception + (validation \<times> worker)" where
  "session_message decode init jail sock tokens w =
     (case token_at tokens 1 of Inl e \<Rightarrow> Inl e | Inr sessionId \<Rightarrow>
      case token_at tokens 2 of Inl e \<Rightarrow> Inl e | Inr key \<Rightarrow>
      case decode key of None \<Rightarrow> Inl SyntaxException | Some u \<Rightarrow>
        (let doc = (case document w of
                      None \<Rightarrow> new_Document jail key u sock
                    | Some existing \<Rightarrow> existing)
         in if u = url doc then
              (case createSession init sessionId doc of
                 (created, doc') \<Rightarrow> Inr (CreateSession created, w\<lparr>document := Some doc'\<rparr>))
            else Inr (UrlMismatch, w\<lparr>document := Some doc\<rparr>)))"

text \<open>
  The handler up to that branch, for a message that the unit-test hook
  \<^verbatim>\<open>filterKitMessage\<close> lets through: the message is split at spaces (empty tokens
  dropped, tokens trimmed); nothing is done once the termination flag is set. The result is
  \<open>None\<close> for a message of another branch.
\<close>

definition handle_session ::
  "(string \<Rightarrow> string option) \<Rightarrow> ChildSession \<Rightarrow> string \<Rightarrow> socket \<Rightarrow> string \<Rightarrow> worker
     \<Rightarrow> exception + (validation \<times> worker) option" where
  "handle_session decode init jail sock message w =
     (let tokens = StringTokenizer message '' '' True True
      in if TerminationFlag w then Inr None
         else case token_at tokens 0 of Inl e \<Rightarrow> Inl e | Inr token0 \<Rightarrow>
           if token0 = ''session'' then
             (case session_message decode init jail sock tokens w of
                Inl e \<Rightarrow> Inl e
              | Inr r \<Rightarrow> Inr (Some r))
           else Inr None)"

subsection \<open>Values for the instances\<close>

text \<open>
  Constants, sessions, a socket and a Document at which the theorems below are
  instantiated. The callback types are pairwise different; the threshold is small so that
  short frames exceed it.
\<close>

definition sample_consts :: kit_consts where
  "sample_consts =
     \<lparr>SMALL_MESSAGE_SIZE = 4, EXIT_OK = 0,
      LOK_CALLBACK_INVALIDATE_VISIBLE_CURSOR = 1, LOK_CALLBACK_CELL_CURSOR = 17,
      LOK_CALLBACK_DOCUMENT_PASSWORD = 20, LOK_CALLBACK_DOCUMENT_PASSWORD_TO_MODIFY = 21,
      LOK_CALLBACK_INVALIDATE_VIEW_CURSOR = 24, LOK_CALLBACK_CELL_VIEW_CURSOR = 26\<rparr>"

definition sample_session :: "string \<Rightarrow> int \<Rightarrow> bool \<Rightarrow> ChildSession" where
  "sample_session sessionId viewId closed =
     \<lparr>getId = sessionId, getJailId = ''42'', getViewId = viewId, isCloseFrame = closed,
      loKitCallbacks = [], textFrames = []\<rparr>"

definition sample_socket :: socket where
  "sample_socket = \<lparr>written = [], writable = 8\<rparr>"

definition sample_document :: "session_map \<Rightarrow> Document" where
  "sample_document m = (new_Document ''42'' ''doc.odt'' ''doc.odt'' sample_socket)\<lparr>sessions := m\<rparr>"

text \<open>
  A JSON parser for the instances: it accepts one payload, which stands for an object with
  the three members, and rejects every other string, as Poco's parser rejects EMPTY. And
  a serialisation of a combined tile request that ignores the sizes.
\<close>

definition sample_parse :: "string \<Rightarrow> (string \<Rightarrow> string option) option" where
  "sample_parse payload =
     (if payload = ''{json}''
      then Some (map_of [(''viewId'', ''2''), (''part'', ''3''), (''rectangle'', ''10, 20, 30, 40'')])
      else None)"

definition sample_serialize :: "nat list \<Rightarrow> string" where
  "sample_serialize imgSizes = ''t''"

definition sample_env :: "(int \<times> string option) list \<Rightarrow> lok_Document option \<Rightarrow> load_env" where
  "sample_env callbacks loaded =
     \<lparr>hasRegisterCallback = True, documentLoadCallbacks = callbacks,
      documentLoadResult = loaded, getView = 0, renderOptions = (\<lambda>opts user. Some ''{}'')\<rparr>"

section \<open>Properties\<close>

subsection \<open>Auxiliary facts\<close>

lemma countRunning_filter:
  "countRunning m = length (filter (\<lambda>(k, s). \<not> isCloseFrame s) m)"
  by (induction m rule: countRunning.induct) auto

lemma eraseClosed_filter:
  "eraseClosed m = filter (\<lambda>(k, s). \<not> isCloseFrame s) m"
  by (induction m rule: eraseClosed.induct) auto

lemma emplace_absent:
  "map_of m k = None \<Longrightarrow>
     snd (emplace k v m) \<and> map_of (fst (emplace k v m)) = (map_of m)(k \<mapsto> v)
     \<and> length (fst (emplace k v m)) = Suc (length m)"
  by (induction m rule: emplace.induct) (auto split: prod.splits if_splits)

lemma emplace_subset:
  "set (fst (emplace k v m)) \<subseteq> insert (k, v) (set m)"
  by (induction m rule: emplace.induct) (auto split: prod.splits if_splits)

text \<open>The map stays in the order of its keys, as a \<^verbatim>\<open>std::map\<close> does.\<close>

lemma emplace_sorted:
  "sorted (map fst m) \<Longrightarrow> sorted (map fst (fst (emplace k v m)))"
proof (induction m rule: emplace.induct)
  case (1 k v)
  then show ?case by simp
next
  case (2 k v k' v' m)
  show ?case
  proof (cases "k = k' \<or> k < k'")
    case True
    with 2 show ?thesis by auto
  next
    case False
    then have lt: "k' < k" by auto
    have "sorted (map fst (fst (emplace k v m)))" using 2 False by simp
    moreover have "\<forall>x \<in> set (map fst (fst (emplace k v m))). k' \<le> x"
      using emplace_subset [of k v m] lt 2(2) by fastforce
    ultimately show ?thesis using False by (cases "emplace k v m") auto
  qed
qed

lemma sendWithSentinel_written:
  "written (snd (sendWithSentinel K f s)) =
     written s @ take (writable s)
       ((if length (frame_bytes f) > SMALL_MESSAGE_SIZE K
         then [nextmessage (length (frame_bytes f))] else []) @ [f])"
  by (cases "writable s")
    (auto simp: sendWithSentinel_def sendFrame_def Let_def split: option.splits nat.splits)

lemma encodeTiles_acc:
  "encodeTiles pngs out sizes =
     (if None \<in> set pngs then None
      else Some (out @ concat (map the pngs), sizes @ map (\<lambda>p. length (the p)) pngs))"
  by (induction pngs out sizes rule: encodeTiles.induct) auto

lemma of_char_char_of_int: "(of_char (char_of (m::nat)) :: int) = int (m mod 256)"
proof -
  have "(of_char (char_of m) :: int) = of_nat (of_char (char_of m))"
    by (rule of_nat_of_char [symmetric])
  then show ?thesis by simp
qed

lemma digits_value_append:
  "digits_value (ds @ [c]) = 10 * digits_value ds + (of_char c - 48)"
  by (simp add: digits_value_def)

text \<open>The digits \<^verbatim>\<open>std::to_string\<close> writes are the number's decimal value.\<close>

lemma digits_value_to_string_nat: "digits_value (to_string_nat n) = int n"
proof (induction n rule: to_string_nat.induct)
  case (1 n)
  show ?case
  proof (cases "n < 10")
    case True
    then show ?thesis
      by (subst to_string_nat.simps) (simp add: digits_value_def of_char_char_of_int)
  next
    case False
    then have "digits_value (to_string_nat n) =
        10 * digits_value (to_string_nat (n div 10)) + (of_char (char_of (48 + n mod 10)) - 48)"
      by (subst to_string_nat.simps) (simp add: digits_value_append)
    also have "\<dots> = 10 * int (n div 10) + int (n mod 10)"
      using 1 False by (simp add: of_char_char_of_int)
    finally show ?thesis by (simp add: zdiv_int zmod_int)
  qed
qed

text \<open>
  The loop of \<^verbatim>\<open>run\<close> hands a callback to at most one session: the first one, in the
  order of the map, that the view id selects, and only when that one is not closed.
\<close>

lemma forwardCallback_first_match:
  "forwardCallback viewId type payload m =
     (case dropWhile (\<lambda>(k, s). \<not> (getViewId s = viewId \<or> viewId = - 1)) m of
        [] \<Rightarrow> (False, m)
      | (k, s) # rest \<Rightarrow>
          if isCloseFrame s then (False, m)
          else (True, takeWhile (\<lambda>(k, s). \<not> (getViewId s = viewId \<or> viewId = - 1)) m
                  @ (k, loKitCallback type payload s) # rest))"
proof -
  define P where "P = (\<lambda>(k :: string, s :: ChildSession). \<not> (getViewId s = viewId \<or> viewId = - 1))"
  have "forwardCallback viewId type payload m =
     (case dropWhile P m of
        [] \<Rightarrow> (False, m)
      | (k, s) # rest \<Rightarrow>
          if isCloseFrame s then (False, m)
          else (True, takeWhile P m @ (k, loKitCallback type payload s) # rest))"
  proof (induction m)
    case Nil
    show ?case by simp
  next
    case (Cons x m)
    obtain k s where x: "x = (k, s)" by (cases x)
    show ?case
    proof (cases "P x")
      case False
      then have "getViewId s = viewId \<or> viewId = - 1"
        by (simp add: P_def x)
      then have "forwardCallback viewId type payload (x # m) =
          (if isCloseFrame s then (False, x # m) else (True, (k, loKitCallback type payload s) # m))"
        by (auto simp: x)
      then show ?thesis using False by (simp add: x)
    next
      case True
      then have "\<not> (getViewId s = viewId \<or> viewId = - 1)"
        by (simp add: P_def x)
      then have f: "forwardCallback viewId type payload (x # m) =
          (case forwardCallback viewId type payload m of (isFound, m') \<Rightarrow> (isFound, x # m'))"
        by (simp add: x)
      note IH = Cons.IH
      show ?thesis
      proof (cases "dropWhile P m")
        case Nil
        show ?thesis using True by (simp add: f IH Nil)
      next
        case (Cons y rest)
        obtain k' s' where y: "y = (k', s')" by (cases y)
        show ?thesis using True by (simp add: f IH Cons y)
      qed
    qed
  qed
  then show ?thesis unfolding P_def .
qed

text \<open>
  \<^verbatim>\<open>load\<close> and the callbacks it runs leave the two counters alone, and \<^verbatim>\<open>onLoad\<close>
  restores \<^verbatim>\<open>_isLoading\<close> and notifies only when it returns a document.
\<close>

lemma GlobalCallback_counters:
  "isLoading (GlobalCallback K tf nType pPayload d) = isLoading d
   \<and> clientViews (GlobalCallback K tf nType pPayload d) = clientViews d
   \<and> cvLoadingNotified (GlobalCallback K tf nType pPayload d) = cvLoadingNotified d"
  by (simp add: GlobalCallback_def setDocumentPassword_def broadcastCallbackToClients_def Let_def)

lemma GlobalCallbacks_counters:
  "isLoading (foldl (\<lambda>doc (nType, pPayload). GlobalCallback K tf nType pPayload doc) d cbs) = isLoading d
   \<and> clientViews (foldl (\<lambda>doc (nType, pPayload). GlobalCallback K tf nType pPayload doc) d cbs) = clientViews d
   \<and> cvLoadingNotified (foldl (\<lambda>doc (nType, pPayload). GlobalCallback K tf nType pPayload doc) d cbs) =
       cvLoadingNotified d"
  by (induction cbs arbitrary: d) (auto simp: GlobalCallback_counters)

lemma initView_counters:
  "isLoading (snd (initView env sid user d)) = isLoading d
   \<and> clientViews (snd (initView env sid user d)) = clientViews d
   \<and> cvLoadingNotified (snd (initView env sid user d)) = cvLoadingNotified d"
  by (simp add: initView_def Let_def split: option.splits)

lemma load_counters:
  "isLoading (snd (load K env tf sid uri user pw opts have d)) = isLoading d
   \<and> clientViews (snd (load K env tf sid uri user pw opts have d)) = clientViews d
   \<and> cvLoadingNotified (snd (load K env tf sid uri user pw opts have d)) = cvLoadingNotified d"
  by (simp add: load_def Let_def initView_counters GlobalCallbacks_counters split: option.splits)

lemma onLoad_counters:
  "(onLoad K env tf sid uri user pw opts have d = Waits d') = (isLoading d \<noteq> 0 \<and> d' = d)"
  "onLoad K env tf sid uri user pw opts have d = Returns None d' \<Longrightarrow>
     isLoading d' = isLoading d + 1 \<and> clientViews d' = clientViews d
     \<and> cvLoadingNotified d' = cvLoadingNotified d"
  "onLoad K env tf sid uri user pw opts have d = Returns (Some h) d' \<Longrightarrow>
     isLoading d' = isLoading d \<and> clientViews d' = clientViews d + 1
     \<and> cvLoadingNotified d' = Suc (cvLoadingNotified d)"
proof -
  obtain r d2 where l: "load K env tf sid uri user pw opts have (d\<lparr>isLoading := isLoading d + 1\<rparr>) = (r, d2)"
    by (cases "load K env tf sid uri user pw opts have (d\<lparr>isLoading := isLoading d + 1\<rparr>)")
  with load_counters [of K env tf sid uri user pw opts "have" "d\<lparr>isLoading := isLoading d + 1\<rparr>"]
  have c: "isLoading d2 = isLoading d + 1" "clientViews d2 = clientViews d"
    "cvLoadingNotified d2 = cvLoadingNotified d"
    by simp_all
  show "(onLoad K env tf sid uri user pw opts have d = Waits d') = (isLoading d \<noteq> 0 \<and> d' = d)"
    using l by (auto simp: onLoad_def Let_def split: sum.splits exception.splits if_splits)
  show "isLoading d' = isLoading d + 1 \<and> clientViews d' = clientViews d
     \<and> cvLoadingNotified d' = cvLoadingNotified d"
    if "onLoad K env tf sid uri user pw opts have d = Returns None d'"
    using that l c by (auto simp: onLoad_def Let_def split: sum.splits exception.splits if_splits)
  show "isLoading d' = isLoading d \<and> clientViews d' = clientViews d + 1
     \<and> cvLoadingNotified d' = Suc (cvLoadingNotified d)"
    if "onLoad K env tf sid uri user pw opts have d = Returns (Some h) d'"
    using that l c by (auto simp: onLoad_def Let_def split: sum.splits exception.splits if_splits)
qed

text \<open>
  Password errors of \<^verbatim>\<open>load\<close>: on the first load, when a password callback fired and
  the engine gave no document; on a later load of a protected document. In both \<^verbatim>\<open>load\<close>
  itself returns null and creates no view.
\<close>

lemma map_of_update_session:
  "map_of (update_session sid f m) k =
     (if k = sid then map_option f (map_of m k) else map_of m k)"
  by (induction m) (auto simp: update_session_def)

lemma GlobalCallback_password_state:
  "sessions (GlobalCallback K tf nType pPayload d) = sessions d
   \<and> haveDocPassword (GlobalCallback K tf nType pPayload d) = haveDocPassword d
   \<and> loKitDocument (GlobalCallback K tf nType pPayload d) = loKitDocument d
   \<and> (isDocPasswordProtected d \<longrightarrow> isDocPasswordProtected (GlobalCallback K tf nType pPayload d))
   \<and> (\<not> tf \<and> (nType = LOK_CALLBACK_DOCUMENT_PASSWORD K \<or>
         nType = LOK_CALLBACK_DOCUMENT_PASSWORD_TO_MODIFY K) \<longrightarrow>
        isDocPasswordProtected (GlobalCallback K tf nType pPayload d))"
  by (simp add: GlobalCallback_def setDocumentPassword_def broadcastCallbackToClients_def Let_def)

lemma GlobalCallbacks_password_state:
  "sessions (foldl (\<lambda>doc (nType, pPayload). GlobalCallback K tf nType pPayload doc) d cbs) = sessions d
   \<and> haveDocPassword (foldl (\<lambda>doc (nType, pPayload). GlobalCallback K tf nType pPayload doc) d cbs) =
       haveDocPassword d
   \<and> loKitDocument (foldl (\<lambda>doc (nType, pPayload). GlobalCallback K tf nType pPayload doc) d cbs) =
       loKitDocument d
   \<and> (isDocPasswordProtected d \<or>
        (\<not> tf \<and> (\<exists>cb \<in> set cbs. fst cb = LOK_CALLBACK_DOCUMENT_PASSWORD K \<or>
           fst cb = LOK_CALLBACK_DOCUMENT_PASSWORD_TO_MODIFY K)) \<longrightarrow>
        isDocPasswordProtected
          (foldl (\<lambda>doc (nType, pPayload). GlobalCallback K tf nType pPayload doc) d cbs))"
proof (induction cbs arbitrary: d)
  case Nil
  then show ?case by simp
next
  case (Cons cb cbs)
  obtain t p where cb: "cb = (t, p)" by (cases cb)
  show ?case
    using Cons.IH [of "GlobalCallback K tf t p d"] GlobalCallback_password_state [of K tf t p d]
    by (auto simp: cb)
qed

lemma load_first_password_error:
  assumes s: "map_of (sessions d) sid = Some s"
    and first: "loKitDocument d = None"
    and reg: "hasRegisterCallback env" and tf: "\<not> tf"
    and fired: "\<exists>cb \<in> set (documentLoadCallbacks env).
        fst cb = LOK_CALLBACK_DOCUMENT_PASSWORD K \<or> fst cb = LOK_CALLBACK_DOCUMENT_PASSWORD_TO_MODIFY K"
    and null: "documentLoadResult env = Some None"
    and l: "load K env tf sid uri user pw opts have d = (r, d')"
  shows "r = Inr None
    \<and> map_of (sessions d') sid =
        Some (session_sendTextFrame
          (if have then ''error: cmd=load kind=wrongpassword''
           else ''error: cmd=load kind='' @ passwordFrame (docPasswordType d')) s)
    \<and> loKitDocument d' = Some None"
proof -
  let ?d2 = "d\<lparr>engine := engine d @ [RegisterGlobalCallback, SetOptionalFeatures],
      haveDocPassword := have, docPassword := pw, jailedUrl := uri, isDocPasswordProtected := False,
      engine := (engine d @ [RegisterGlobalCallback, SetOptionalFeatures]) @ [DocumentLoad uri]\<rparr>"
  let ?d3 = "foldl (\<lambda>doc (nType, pPayload). GlobalCallback K tf nType pPayload doc) ?d2
      (documentLoadCallbacks env)"
  have p: "sessions ?d3 = sessions d" "haveDocPassword ?d3 = have" "isDocPasswordProtected ?d3"
    using GlobalCallbacks_password_state [of K tf ?d2 "documentLoadCallbacks env"] tf fired
    by auto
  show ?thesis
    using l s first reg null p
    by (auto simp: load_def Let_def map_of_update_session)
qed

lemma load_subsequent_password_error:
  assumes s: "map_of (sessions d) sid = Some s"
    and loaded: "loKitDocument d = Some doc"
    and prot: "isDocPasswordProtected d"
    and bad: "\<not> have \<or> pw \<noteq> docPassword d"
  shows "load K env tf sid uri user pw opts have d =
      (Inr None,
       d\<lparr>sessions := update_session sid
          (session_sendTextFrame
            (if have then ''error: cmd=load kind=wrongpassword''
             else ''error: cmd=load kind='' @ passwordFrame (docPasswordType d)))
          (sessions d)\<rparr>)"
  using assms by (auto simp: load_def)

lemma onLoad_subsequent_password_error:
  assumes s: "map_of (sessions d) sid = Some s"
    and loaded: "loKitDocument d = Some (Some h)"
    and prot: "isDocPasswordProtected d"
    and bad: "\<not> have \<or> pw \<noteq> docPassword d"
    and idle: "isLoading d = 0"
  shows "onLoad K env tf sid uri user pw opts have d =
      Returns (Some (Some h))
       (d\<lparr>sessions := update_session sid
          (session_sendTextFrame
            (if have then ''error: cmd=load kind=wrongpassword''
             else ''error: cmd=load kind='' @ passwordFrame (docPasswordType d)))
          (sessions d),
          clientViews := clientViews d + 1,
          cvLoadingNotified := Suc (cvLoadingNotified d)\<rparr>)"
proof -
  have "load K env tf sid uri user pw opts have (d\<lparr>isLoading := isLoading d + 1\<rparr>) =
      (Inr None,
       d\<lparr>isLoading := isLoading d + 1, sessions := update_session sid
          (session_sendTextFrame
            (if have then ''error: cmd=load kind=wrongpassword''
             else ''error: cmd=load kind='' @ passwordFrame (docPasswordType d)))
          (sessions d)\<rparr>)"
    using load_subsequent_password_error [of "d\<lparr>isLoading := isLoading d + 1\<rparr>" sid s "Some h" "have" pw
        K env tf uri user opts] assms
    by simp
  then show ?thesis using idle loaded
    by (simp add: onLoad_def)
qed


lemmas sample_defs = sample_env_def sample_consts_def sample_document_def sample_session_def
  sample_socket_def new_Document_def

lemmas load_defs = onLoad_def load_def initView_def GlobalCallback_def setDocumentPassword_def
  broadcastCallbackToClients_def update_session_def session_sendTextFrame_def passwordFrame_def
  setViewId_def payload_of_def

subsection \<open>The claims\<close>

text \<open>
  C1. The callback branch of the dispatch loop at a broadcast (view id \<open>-1\<close>) with two
  live sessions in the map: the loop leaves at the first session, so only that one
  receives the type and payload, and the second live session receives nothing. When the
  first session is closed, no session receives the broadcast.
\<close>

theorem run_callback_first_session_only:
  "run_branch ''callback'' = Callback
   \<and> run_callback ''callback -1 3 payload''
       (sample_document [(''a'', sample_session ''a'' 0 False), (''b'', sample_session ''b'' 1 False)]) =
     Inr (sample_document
       [(''a'', (sample_session ''a'' 0 False)\<lparr>loKitCallbacks := [(3, ''payload'')]\<rparr>),
        (''b'', sample_session ''b'' 1 False)])
   \<and> run_callback ''callback -1 3 payload''
       (sample_document [(''a'', sample_session ''a'' 0 True), (''b'', sample_session ''b'' 1 False)]) =
     Inr (sample_document [(''a'', sample_session ''a'' 0 True), (''b'', sample_session ''b'' 1 False)])"
proof -
  have t: "StringTokenizer ''callback -1 3 payload'' '' '' False False =
      [''callback'', ''-1'', ''3'', ''payload'']"
    by code_simp
  have s: "stoi ''-1'' = Inr (- 1)" "stoi ''3'' = Inr 3"
    by code_simp+
  have b: "run_branch ''callback'' = Callback"
    by (simp add: run_branch_def getFirstToken_def)
  show ?thesis
    by (simp add: b run_callback_def t s token_at_def substr_def sample_document_def
        sample_session_def loKitCallback_def)
qed

text \<open>
  C2. \<^verbatim>\<open>onLoad\<close> at calls that return null (the engine asks for a password, none was
  given and no document comes back; or the session id is not in the map): the call starts
  with \<^verbatim>\<open>_isLoading\<close> at 0 and returns with it at 1 and with no waiter notified, and
  the next \<^verbatim>\<open>onLoad\<close> waits.
\<close>

theorem onLoad_null_keeps_isLoading:
  "onLoad sample_consts (sample_env [(20, None)] (Some None)) False ''s1'' ''doc.odt'' [] [] [] False
       (sample_document [(''s1'', sample_session ''s1'' 0 False)]) =
     Returns None
       ((sample_document [(''s1'', (sample_session ''s1'' 0 False)
            \<lparr>textFrames := [''error: cmd=load kind=passwordrequired:to-view'']\<rparr>)])
          \<lparr>jailedUrl := ''doc.odt'', loKitDocument := Some None, isDocPasswordProtected := True,
           isLoading := 1,
           engine := [RegisterGlobalCallback, SetOptionalFeatures, DocumentLoad ''doc.odt'',
                      SetDocumentPassword ''doc.odt'' None]\<rparr>)
   \<and> isLoading (sample_document [(''s1'', sample_session ''s1'' 0 False)]) = 0
   \<and> cvLoadingNotified (sample_document [(''s1'', sample_session ''s1'' 0 False)]) = 0
   \<and> onLoad sample_consts (sample_env [] None) False ''s9'' ''doc.odt'' [] [] [] False
       (sample_document [(''s1'', sample_session ''s1'' 0 False)]) =
     Returns None ((sample_document [(''s1'', sample_session ''s1'' 0 False)])\<lparr>isLoading := 1\<rparr>)
   \<and> onLoad sample_consts (sample_env [] None) False ''s1'' ''doc.odt'' [] [] [] False
       ((sample_document [(''s1'', sample_session ''s1'' 0 False)])\<lparr>isLoading := 1\<rparr>) =
     Waits ((sample_document [(''s1'', sample_session ''s1'' 0 False)])\<lparr>isLoading := 1\<rparr>)"
  by (simp add: sample_defs load_defs)

text \<open>
  C3. A later load of a password-protected document that is loaded already, by a session
  that gives no password or a wrong one: \<^verbatim>\<open>load\<close> sends the error frame to the session,
  creates no view and returns null, but \<^verbatim>\<open>onLoad\<close> returns the document and counts
  one more client view.
\<close>

theorem onLoad_ignores_load_result:
  "load sample_consts (sample_env [] None) False ''s2'' ''doc.odt'' [] [] [] False
       ((sample_document [(''s1'', sample_session ''s1'' 0 False), (''s2'', sample_session ''s2'' 0 False)])
          \<lparr>loKitDocument := Some (Some 7), isDocPasswordProtected := True, haveDocPassword := True,
           docPassword := ''secret'', clientViews := 1\<rparr>) =
     (Inr None,
      (sample_document [(''s1'', sample_session ''s1'' 0 False),
         (''s2'', (sample_session ''s2'' 0 False)
            \<lparr>textFrames := [''error: cmd=load kind=passwordrequired:to-view'']\<rparr>)])
          \<lparr>loKitDocument := Some (Some 7), isDocPasswordProtected := True, haveDocPassword := True,
           docPassword := ''secret'', clientViews := 1\<rparr>)
   \<and> onLoad sample_consts (sample_env [] None) False ''s2'' ''doc.odt'' [] [] [] False
       ((sample_document [(''s1'', sample_session ''s1'' 0 False), (''s2'', sample_session ''s2'' 0 False)])
          \<lparr>loKitDocument := Some (Some 7), isDocPasswordProtected := True, haveDocPassword := True,
           docPassword := ''secret'', clientViews := 1\<rparr>) =
     Returns (Some (Some 7))
       ((sample_document [(''s1'', sample_session ''s1'' 0 False),
         (''s2'', (sample_session ''s2'' 0 False)
            \<lparr>textFrames := [''error: cmd=load kind=passwordrequired:to-view'']\<rparr>)])
          \<lparr>loKitDocument := Some (Some 7), isDocPasswordProtected := True, haveDocPassword := True,
           docPassword := ''secret'', clientViews := 2, cvLoadingNotified := 1\<rparr>)
   \<and> onLoad sample_consts (sample_env [] None) False ''s2'' ''doc.odt'' [] ''guess'' [] True
       ((sample_document [(''s1'', sample_session ''s1'' 0 False), (''s2'', sample_session ''s2'' 0 False)])
          \<lparr>loKitDocument := Some (Some 7), isDocPasswordProtected := True, haveDocPassword := True,
           docPassword := ''secret'', clientViews := 1\<rparr>) =
     Returns (Some (Some 7))
       ((sample_document [(''s1'', sample_session ''s1'' 0 False),
         (''s2'', (sample_session ''s2'' 0 False)
            \<lparr>textFrames := [''error: cmd=load kind=wrongpassword'']\<rparr>)])
          \<lparr>loKitDocument := Some (Some 7), isDocPasswordProtected := True, haveDocPassword := True,
           docPassword := ''secret'', clientViews := 2, cvLoadingNotified := 1\<rparr>)"
  by (simp add: sample_defs load_defs)

text \<open>
  C4. \<^verbatim>\<open>purgeSessions\<close> tries the document mutex without blocking and returns the
  sentinel (\<open>-1\<close> as a \<^verbatim>\<open>size_t\<close>) when it cannot take it. Otherwise, when no session
  has its close-frame flag clear, the process exits with the success code; and when some
  session has, exactly the sessions whose flag is set are erased and the number of sessions
  left in the map is returned.
\<close>

theorem purgeSessions_spec:
  "purgeSessions K False d = Return (- 1) d
   \<and> (length (filter (\<lambda>(k, s). \<not> isCloseFrame s) (sessions d)) = 0 \<longrightarrow>
        purgeSessions K True d = Exit (EXIT_OK K))
   \<and> (length (filter (\<lambda>(k, s). \<not> isCloseFrame s) (sessions d)) \<noteq> 0 \<longrightarrow>
        purgeSessions K True d =
          Return (of_nat (length (filter (\<lambda>(k, s). \<not> isCloseFrame s) (sessions d))))
            (d\<lparr>sessions := filter (\<lambda>(k, s). \<not> isCloseFrame s) (sessions d)\<rparr>))"
  by (simp add: purgeSessions_def Let_def countRunning_filter eraseClosed_filter)

theorem purgeSessions_spec_witness:
  "purgeSessions sample_consts False
      (sample_document [(''a'', sample_session ''a'' 0 False), (''b'', sample_session ''b'' 1 True)]) =
     Return (- 1)
      (sample_document [(''a'', sample_session ''a'' 0 False), (''b'', sample_session ''b'' 1 True)])
   \<and> purgeSessions sample_consts True
      (sample_document [(''a'', sample_session ''a'' 0 False), (''b'', sample_session ''b'' 1 True)]) =
     Return 1 (sample_document [(''a'', sample_session ''a'' 0 False)])
   \<and> purgeSessions sample_consts True (sample_document [(''b'', sample_session ''b'' 1 True)]) = Exit 0"
  using purgeSessions_spec [of sample_consts
      "sample_document [(''a'', sample_session ''a'' 0 False), (''b'', sample_session ''b'' 1 True)]"]
    purgeSessions_spec [of sample_consts "sample_document [(''b'', sample_session ''b'' 1 True)]"]
  by (simp add: sample_document_def sample_session_def sample_consts_def)

text \<open>
  C5. \<^verbatim>\<open>createSession\<close> is idempotent. For a session id that is in the map it returns
  true and changes nothing. For one that is not, it returns true and the map gains exactly
  one entry, the new session with that id and this Document's jail id; no other member of
  the Document changes, so the document is not loaded. A second call with the same id
  returns true and changes nothing.
\<close>

theorem createSession_idempotent:
  "(map_of (sessions d) sessionId \<noteq> None \<longrightarrow> createSession init sessionId d = (True, d))
   \<and> (map_of (sessions d) sessionId = None \<longrightarrow>
        fst (createSession init sessionId d)
        \<and> map_of (sessions (snd (createSession init sessionId d))) =
            (map_of (sessions d))(sessionId \<mapsto> init\<lparr>getId := sessionId, getJailId := jailId d\<rparr>)
        \<and> length (sessions (snd (createSession init sessionId d))) = Suc (length (sessions d))
        \<and> snd (createSession init sessionId d) =
            d\<lparr>sessions := sessions (snd (createSession init sessionId d))\<rparr>)
   \<and> createSession init sessionId (snd (createSession init sessionId d)) =
        (True, snd (createSession init sessionId d))"
proof -
  have a: "createSession init sessionId d = (True, d)" if "map_of (sessions d) sessionId \<noteq> None"
    using that by (auto simp: createSession_def)
  have b: "fst (createSession init sessionId d)
        \<and> map_of (sessions (snd (createSession init sessionId d))) =
            (map_of (sessions d))(sessionId \<mapsto> init\<lparr>getId := sessionId, getJailId := jailId d\<rparr>)
        \<and> length (sessions (snd (createSession init sessionId d))) = Suc (length (sessions d))
        \<and> snd (createSession init sessionId d) =
            d\<lparr>sessions := sessions (snd (createSession init sessionId d))\<rparr>"
    if "map_of (sessions d) sessionId = None"
    using that emplace_absent [OF that, of "init\<lparr>getId := sessionId, getJailId := jailId d\<rparr>"]
    by (simp add: createSession_def Let_def)
  have c: "createSession init sessionId (snd (createSession init sessionId d)) =
        (True, snd (createSession init sessionId d))"
  proof (cases "map_of (sessions d) sessionId")
    case None
    with b have "map_of (sessions (snd (createSession init sessionId d))) sessionId \<noteq> None"
      by simp
    then show ?thesis
      by (auto simp: createSession_def [of init sessionId "snd (createSession init sessionId d)"])
  next
    case (Some s)
    then show ?thesis using a by simp
  qed
  from a b c show ?thesis by blast
qed

theorem createSession_idempotent_witness:
  "createSession (sample_session [] 0 False) ''s1'' (sample_document []) =
     (True, sample_document [(''s1'', sample_session ''s1'' 0 False)])
   \<and> createSession (sample_session [] 0 False) ''s1''
       (sample_document [(''s1'', sample_session ''s1'' 0 False)]) =
     (True, sample_document [(''s1'', sample_session ''s1'' 0 False)])
   \<and> loKitDocument (sample_document [(''s1'', sample_session ''s1'' 0 False)]) = None
   \<and> engine (sample_document [(''s1'', sample_session ''s1'' 0 False)]) = []"
proof -
  have e: "createSession (sample_session [] 0 False) ''s1'' (sample_document []) =
     (True, sample_document [(''s1'', sample_session ''s1'' 0 False)])"
    by (simp add: createSession_def sample_document_def sample_session_def new_Document_def)
  show ?thesis
    using createSession_idempotent [of "sample_document []" "''s1''" "sample_session [] 0 False"] e
    by (simp add: sample_document_def new_Document_def)
qed

text \<open>
  C6. Once a Document exists for a URL, a \<^verbatim>\<open>session\<close> message whose decoded URL is a
  different one leaves the worker as it was: no new Document and no new session. The
  comparison of the URLs fails, so \<^verbatim>\<open>createSession\<close> is not called; called with that
  session id it would return true.
\<close>

theorem session_other_url_rejected:
  "document w = Some doc \<and> token_at tokens 1 = Inr sessionId \<and> token_at tokens 2 = Inr key
     \<and> decode key = Some u \<and> u \<noteq> url doc \<longrightarrow>
   session_message decode init jail sock tokens w = Inr (UrlMismatch, w)
   \<and> fst (createSession init sessionId doc)"
  by (cases "map_of (sessions doc) sessionId")
    (auto simp: session_message_def createSession_def Let_def)

theorem session_other_url_rejected_witness:
  "handle_session Some (sample_session [] 0 False) ''42'' sample_socket ''session s2 other.odt''
      \<lparr>document = Some (sample_document [(''s1'', sample_session ''s1'' 0 False)]),
       TerminationFlag = False\<rparr> =
     Inr (Some (UrlMismatch,
       \<lparr>document = Some (sample_document [(''s1'', sample_session ''s1'' 0 False)]),
        TerminationFlag = False\<rparr>))"
proof -
  have t: "StringTokenizer ''session s2 other.odt'' '' '' True True = [''session'', ''s2'', ''other.odt'']"
    by code_simp
  have u: "url (sample_document [(''s1'', sample_session ''s1'' 0 False)]) = ''doc.odt''"
    by (simp add: sample_document_def new_Document_def)
  show ?thesis
    using session_other_url_rejected [of
        "\<lparr>document = Some (sample_document [(''s1'', sample_session ''s1'' 0 False)]),
          TerminationFlag = False\<rparr>"
        "sample_document [(''s1'', sample_session ''s1'' 0 False)]"
        "[''session'', ''s2'', ''other.odt'']" "''s2''" "''other.odt''" Some "''other.odt''"
        "sample_session [] 0 False" "''42''" sample_socket]
    by (simp add: handle_session_def t u token_at_def)
qed

theorem createSession_not_called_counterexample:
  "handle_session Some (sample_session [] 0 False) ''42'' sample_socket ''session s2 other.odt''
      \<lparr>document = Some (sample_document [(''s1'', sample_session ''s1'' 0 False)]),
       TerminationFlag = False\<rparr> \<noteq>
     Inr (Some (CreateSession False,
       \<lparr>document = Some (sample_document [(''s1'', sample_session ''s1'' 0 False)]),
        TerminationFlag = False\<rparr>))
   \<and> fst (createSession (sample_session [] 0 False) ''s2''
         (sample_document [(''s1'', sample_session ''s1'' 0 False)]))"
proof -
  have t: "StringTokenizer ''session s2 other.odt'' '' '' True True = [''session'', ''s2'', ''other.odt'']"
    by code_simp
  show ?thesis
    by (simp add: handle_session_def session_message_def t token_at_def sample_document_def
        new_Document_def createSession_def)
qed

text \<open>
  C7. What \<^verbatim>\<open>sendTextFrame\<close>, \<^verbatim>\<open>renderTile\<close> and \<^verbatim>\<open>renderCombinedTiles\<close> write on
  the control socket: nothing on their error paths, and otherwise the response frame,
  preceded by the one text frame \<^verbatim>\<open>nextmessage: size=N\<close>, with \<open>N\<close> the response's
  length in bytes, exactly when that length exceeds \<^verbatim>\<open>SMALL_MESSAGE_SIZE\<close> (cut short
  only where the socket stops accepting writes).
\<close>

theorem nextmessage_sentinel:
  "written (ws (snd (sendTextFrame K badSocket message d))) =
     written (ws d) @
       (if badSocket then []
        else take (writable (ws d))
          ((if length message > SMALL_MESSAGE_SIZE K
            then [FRAME_TEXT (''nextmessage: size='' @ to_string_nat (length message))] else [])
           @ [FRAME_TEXT message]))
   \<and> written (ws (snd (renderTile K tileMsg viewsCount png d))) =
     written (ws d) @
       (if loKitDocument d = None \<or> loKitDocument d = Some None \<or> viewsCount \<le> 0 \<or> png = None
        then []
        else take (writable (ws d))
          ((if length (tileMsg @ [CHR 0x0A] @ the png) > SMALL_MESSAGE_SIZE K
            then [FRAME_TEXT (''nextmessage: size='' @
                    to_string_nat (length (tileMsg @ [CHR 0x0A] @ the png)))] else [])
           @ [FRAME_BINARY (tileMsg @ [CHR 0x0A] @ the png)]))
   \<and> written (ws (snd (renderCombinedTiles K serialize viewsCount pngs d))) =
     written (ws d) @
       (if loKitDocument d = None \<or> loKitDocument d = Some None \<or> viewsCount \<le> 0 \<or> None \<in> set pngs
        then []
        else take (writable (ws d))
          ((if length (serialize (map (\<lambda>p. length (the p)) pngs) @ [CHR 0x0A] @ concat (map the pngs))
                > SMALL_MESSAGE_SIZE K
            then [FRAME_TEXT (''nextmessage: size='' @
                    to_string_nat (length (serialize (map (\<lambda>p. length (the p)) pngs) @ [CHR 0x0A]
                      @ concat (map the pngs))))] else [])
           @ [FRAME_BINARY (serialize (map (\<lambda>p. length (the p)) pngs) @ [CHR 0x0A]
                @ concat (map the pngs))]))"
proof -
  have s: "written (snd (sendWithSentinel K f s)) =
     written s @ take (writable s)
       ((if length (frame_bytes f) > SMALL_MESSAGE_SIZE K
         then [FRAME_TEXT (''nextmessage: size='' @ to_string_nat (length (frame_bytes f)))] else [])
        @ [f])" for f s
    by (simp only: sendWithSentinel_written nextmessage_def)
  have a: "written (ws (snd (sendTextFrame K badSocket message d))) =
     written (ws d) @
       (if badSocket then []
        else take (writable (ws d))
          ((if length message > SMALL_MESSAGE_SIZE K
            then [FRAME_TEXT (''nextmessage: size='' @ to_string_nat (length message))] else [])
           @ [FRAME_TEXT message]))"
  proof (cases badSocket)
    case True
    then show ?thesis by (simp add: sendTextFrame_def)
  next
    case False
    then have "written (ws (snd (sendTextFrame K badSocket message d))) =
        written (snd (sendWithSentinel K (FRAME_TEXT message) (ws d)))"
      by (simp add: sendTextFrame_def split: prod.splits)
    then show ?thesis using False
      by (simp only: s) (simp add: frame_bytes_def)
  qed
  have b: "written (ws (snd (renderTile K tileMsg viewsCount png d))) =
     written (ws d) @
       (if loKitDocument d = None \<or> loKitDocument d = Some None \<or> viewsCount \<le> 0 \<or> png = None
        then []
        else take (writable (ws d))
          ((if length (tileMsg @ [CHR 0x0A] @ the png) > SMALL_MESSAGE_SIZE K
            then [FRAME_TEXT (''nextmessage: size='' @
                    to_string_nat (length (tileMsg @ [CHR 0x0A] @ the png)))] else [])
           @ [FRAME_BINARY (tileMsg @ [CHR 0x0A] @ the png)]))"
  proof (cases "loKitDocument d = None \<or> loKitDocument d = Some None \<or> viewsCount \<le> 0 \<or> png = None")
    case True
    then show ?thesis by (auto simp: renderTile_def split: option.splits)
  next
    case False
    then obtain h bytes where "loKitDocument d = Some (Some h)" "png = Some bytes" "0 < viewsCount"
      by auto
    then have "written (ws (snd (renderTile K tileMsg viewsCount png d))) =
        written (snd (sendWithSentinel K (FRAME_BINARY (tileMsg @ [CHR 0x0A] @ the png)) (ws d)))"
      by (simp add: renderTile_def split: prod.splits)
    then show ?thesis using False
      by (simp only: s) (simp add: frame_bytes_def)
  qed
  have c: "written (ws (snd (renderCombinedTiles K serialize viewsCount pngs d))) =
     written (ws d) @
       (if loKitDocument d = None \<or> loKitDocument d = Some None \<or> viewsCount \<le> 0 \<or> None \<in> set pngs
        then []
        else take (writable (ws d))
          ((if length (serialize (map (\<lambda>p. length (the p)) pngs) @ [CHR 0x0A] @ concat (map the pngs))
                > SMALL_MESSAGE_SIZE K
            then [FRAME_TEXT (''nextmessage: size='' @
                    to_string_nat (length (serialize (map (\<lambda>p. length (the p)) pngs) @ [CHR 0x0A]
                      @ concat (map the pngs))))] else [])
           @ [FRAME_BINARY (serialize (map (\<lambda>p. length (the p)) pngs) @ [CHR 0x0A]
                @ concat (map the pngs))]))"
  proof (cases "loKitDocument d = None \<or> loKitDocument d = Some None \<or> viewsCount \<le> 0 \<or> None \<in> set pngs")
    case True
    then show ?thesis by (auto simp: renderCombinedTiles_def encodeTiles_acc split: option.splits)
  next
    case False
    then obtain h where "loKitDocument d = Some (Some h)" "None \<notin> set pngs" "0 < viewsCount"
      by auto
    then have "written (ws (snd (renderCombinedTiles K serialize viewsCount pngs d))) =
        written (snd (sendWithSentinel K (FRAME_BINARY (serialize (map (\<lambda>p. length (the p)) pngs)
           @ [CHR 0x0A] @ concat (map the pngs))) (ws d)))"
      by (simp add: renderCombinedTiles_def encodeTiles_acc split: prod.splits)
    then show ?thesis using False
      by (simp only: s) (simp add: frame_bytes_def)
  qed
  from a b c show ?thesis by (rule conjI [OF _ conjI])
qed

theorem nextmessage_sentinel_witness:
  "written (ws (snd (sendTextFrame sample_consts False ''hello!'' (sample_document [])))) =
     [FRAME_TEXT ''nextmessage: size=6'', FRAME_TEXT ''hello!'']
   \<and> written (ws (snd (sendTextFrame sample_consts False ''hi'' (sample_document [])))) =
     [FRAME_TEXT ''hi'']
   \<and> written (ws (snd (renderTile sample_consts ''t'' 1 (Some ''PNG'')
        ((sample_document [])\<lparr>loKitDocument := Some (Some 1)\<rparr>)))) =
     [FRAME_TEXT ''nextmessage: size=5'', FRAME_BINARY (''t'' @ [CHR 0x0A] @ ''PNG'')]
   \<and> written (ws (snd (renderCombinedTiles sample_consts sample_serialize 1 [Some ''P'', Some ''Q'']
        ((sample_document [])\<lparr>loKitDocument := Some (Some 1)\<rparr>)))) =
     [FRAME_BINARY (''t'' @ [CHR 0x0A] @ ''PQ'')]"
proof -
  have n6: "to_string_nat (Suc (Suc (Suc (Suc (Suc (Suc 0)))))) = ''6''"
    and n5: "to_string_nat (Suc (Suc (Suc (Suc (Suc 0))))) = ''5''"
    by code_simp+
  show ?thesis
    using nextmessage_sentinel [of sample_consts False "''hello!''" "sample_document []"
        "''t''" 1 "Some ''PNG''" sample_serialize "[Some ''P'', Some ''Q'']"]
      nextmessage_sentinel [of sample_consts False "''hi''" "sample_document []"
        "''t''" 1 "Some ''PNG''" sample_serialize "[Some ''P'', Some ''Q'']"]
      nextmessage_sentinel [of sample_consts False "''hi''"
        "(sample_document [])\<lparr>loKitDocument := Some (Some 1)\<rparr>"
        "''t''" 1 "Some ''PNG''" sample_serialize "[Some ''P'', Some ''Q'']"]
    by (simp add: n6 n5 sample_consts_def sample_document_def sample_socket_def new_Document_def
        sample_serialize_def)
qed

text \<open>
  C8. In \<^verbatim>\<open>COPY_LO\<close> mode \<^verbatim>\<open>shouldCopyDir\<close> returns false exactly for the seven
  relative paths program/wizards, sdk, share/basic, share/gallery, share/Scripts,
  share/template and share/config/wizard, so that exactly those subtrees are skipped; in
  \<^verbatim>\<open>COPY_NO_USR\<close> mode it returns false exactly for usr; in \<^verbatim>\<open>COPY_ALL\<close> mode it
  returns true for every path.
\<close>

theorem shouldCopyDir_modes:
  "(\<not> shouldCopyDir COPY_LO path) =
     (path \<in> {''program/wizards'', ''sdk'', ''share/basic'', ''share/gallery'',
               ''share/Scripts'', ''share/template'', ''share/config/wizard''})
   \<and> (linkOrCopyDir COPY_LO path = FTW_SKIP_SUBTREE) =
     (path \<in> {''program/wizards'', ''sdk'', ''share/basic'', ''share/gallery'',
               ''share/Scripts'', ''share/template'', ''share/config/wizard''})
   \<and> (\<not> shouldCopyDir COPY_NO_USR path) = (path = ''usr'')
   \<and> shouldCopyDir COPY_ALL path"
  by (simp add: linkOrCopyDir_def)

theorem shouldCopyDir_modes_witness:
  "\<not> shouldCopyDir COPY_LO ''share/gallery''
   \<and> linkOrCopyDir COPY_LO ''share/gallery'' = FTW_SKIP_SUBTREE
   \<and> shouldCopyDir COPY_LO ''share''
   \<and> \<not> shouldCopyDir COPY_NO_USR ''usr''
   \<and> shouldCopyDir COPY_NO_USR ''sdk''
   \<and> shouldCopyDir COPY_ALL ''usr''"
  using shouldCopyDir_modes [of "''share/gallery''"] shouldCopyDir_modes [of "''share''"]
    shouldCopyDir_modes [of "''usr''"] shouldCopyDir_modes [of "''sdk''"]
  by simp

text \<open>
  C9. \<^verbatim>\<open>ViewCallback\<close> with the termination flag clear. For the two cursor types and a
  payload of four comma-separated integers, the cursor of view 0, part 0 is updated,
  whatever the callback's view. For the two view-cursor types (which are tested second, so
  for a type that is not also a cursor type), the view id and the part of the JSON payload
  are used with the four integers of its rectangle. A payload EMPTY for
  the cursor types updates nothing. Whenever the callback returns without an exception,
  at most one update was made and the message \<^verbatim>\<open>callback <viewId> <type> <payload>\<close> is
  the last one put on the queue.
\<close>

theorem ViewCallback_enqueues:
  "(nType \<in> {LOK_CALLBACK_INVALIDATE_VISIBLE_CURSOR K, LOK_CALLBACK_CELL_CURSOR K}
      \<and> cursorRectangle (payload_of pPayload) = Inr (Some (x, y, w, h)) \<longrightarrow>
      ViewCallback K parse False ViewId nType pPayload d =
        Inr (d\<lparr>tileQueue := tileQueue d @
          [UpdateCursorPosition 0 0 x y w h,
           Put (''callback '' @ to_string ViewId @ '' '' @ to_string nType @ '' '' @ payload_of pPayload)]\<rparr>))
   \<and> (nType \<notin> {LOK_CALLBACK_INVALIDATE_VISIBLE_CURSOR K, LOK_CALLBACK_CELL_CURSOR K}
      \<and> nType \<in> {LOK_CALLBACK_INVALIDATE_VIEW_CURSOR K, LOK_CALLBACK_CELL_VIEW_CURSOR K}
      \<and> parse (payload_of pPayload) = Some command
      \<and> command ''viewId'' = Some viewId \<and> command ''part'' = Some part
      \<and> command ''rectangle'' = Some text
      \<and> cursorRectangle text = Inr (Some (x, y, w, h))
      \<and> stoi viewId = Inr v \<and> stoi part = Inr p \<longrightarrow>
      ViewCallback K parse False ViewId nType pPayload d =
        Inr (d\<lparr>tileQueue := tileQueue d @
          [UpdateCursorPosition v p x y w h,
           Put (''callback '' @ to_string ViewId @ '' '' @ to_string nType @ '' '' @ payload_of pPayload)]\<rparr>))
   \<and> (nType \<in> {LOK_CALLBACK_INVALIDATE_VISIBLE_CURSOR K, LOK_CALLBACK_CELL_CURSOR K}
      \<and> cursorRectangle (payload_of pPayload) = Inr None \<longrightarrow>
      ViewCallback K parse False ViewId nType pPayload d =
        Inr (d\<lparr>tileQueue := tileQueue d @
          [Put (''callback '' @ to_string ViewId @ '' '' @ to_string nType @ '' '' @ payload_of pPayload)]\<rparr>))
   \<and> cursorRectangle ''EMPTY'' = Inr None
   \<and> (ViewCallback K parse False ViewId nType pPayload d = Inr d' \<longrightarrow>
      (\<exists>updates. length updates \<le> 1 \<and>
         d' = d\<lparr>tileQueue := tileQueue d @ updates @
           [Put (''callback '' @ to_string ViewId @ '' '' @ to_string nType @ '' '' @ payload_of pPayload)]\<rparr>))"
proof -
  have e: "cursorRectangle ''EMPTY'' = Inr None"
    by code_simp
  have r: "\<exists>updates. length updates \<le> 1 \<and>
         d' = d\<lparr>tileQueue := tileQueue d @ updates @
           [Put (''callback '' @ to_string ViewId @ '' '' @ to_string nType @ '' '' @ payload_of pPayload)]\<rparr>"
    if "ViewCallback K parse False ViewId nType pPayload d = Inr d'"
  proof -
    from that obtain q where q: "d' = d\<lparr>tileQueue := q @
           [Put (''callback '' @ to_string ViewId @ '' '' @ to_string nType @ '' '' @ payload_of pPayload)]\<rparr>"
      and "q = tileQueue d \<or> (\<exists>u. q = tileQueue d @ [u])"
      by (auto simp: ViewCallback_def Let_def split: sum.splits option.splits if_splits prod.splits)
    then show ?thesis
      by (elim disjE exE) (rule exI [of _ "[]"], simp, rule_tac x = "[u]" in exI, simp)
  qed
  show ?thesis
    using e r by (auto simp: ViewCallback_def Let_def)
qed

theorem ViewCallback_enqueues_witness:
  "ViewCallback sample_consts sample_parse False 5 1 (Some ''1, 2, 3, 4'') (sample_document []) =
     Inr ((sample_document [])\<lparr>tileQueue :=
       [UpdateCursorPosition 0 0 1 2 3 4, Put ''callback 5 1 1, 2, 3, 4'']\<rparr>)
   \<and> ViewCallback sample_consts sample_parse False 5 24 (Some ''{json}'') (sample_document []) =
     Inr ((sample_document [])\<lparr>tileQueue :=
       [UpdateCursorPosition 2 3 10 20 30 40, Put ''callback 5 24 {json}'']\<rparr>)
   \<and> ViewCallback sample_consts sample_parse False 5 17 (Some ''EMPTY'') (sample_document []) =
     Inr ((sample_document [])\<lparr>tileQueue := [Put ''callback 5 17 EMPTY'']\<rparr>)"
proof -
  have c1: "cursorRectangle ''1, 2, 3, 4'' = Inr (Some (1, 2, 3, 4))"
    by code_simp
  have c2: "cursorRectangle ''10, 20, 30, 40'' = Inr (Some (10, 20, 30, 40))"
    by code_simp
  have c3: "cursorRectangle ''EMPTY'' = Inr None"
    by code_simp
  have s2: "stoi ''2'' = Inr 2" and s3: "stoi ''3'' = Inr 3"
    by code_simp+
  have t: "to_string 5 = ''5''" "to_string 1 = ''1''" "to_string 24 = ''24''" "to_string 17 = ''17''"
    by code_simp+
  show ?thesis
    using
      ViewCallback_enqueues [of 1 sample_consts "Some ''1, 2, 3, 4''" 1 2 3 4 sample_parse 5
        "sample_document []"]
      ViewCallback_enqueues [of 24 sample_consts "Some ''{json}''" 10 20 30 40 sample_parse 5
        "sample_document []"
        "map_of [(''viewId'', ''2''), (''part'', ''3''), (''rectangle'', ''10, 20, 30, 40'')]"
        "''2''" "''3''" "''10, 20, 30, 40''" 2 3]
      ViewCallback_enqueues [of 17 sample_consts "Some ''EMPTY''" 0 0 0 0 sample_parse 5
        "sample_document []"]
    by (simp add: c1 c2 c3 s2 s3 t sample_consts_def sample_document_def new_Document_def
        payload_of_def sample_parse_def)
qed

theorem ViewCallback_throws_counterexample:
  "ViewCallback sample_consts sample_parse False 5 1 (Some ''a,b,c,d'') (sample_document []) =
     Inl invalid_argument
   \<and> ViewCallback sample_consts sample_parse False 5 24 (Some ''EMPTY'') (sample_document []) =
     Inl JSONException"
proof -
  have c: "cursorRectangle ''a,b,c,d'' = Inl invalid_argument"
    by code_simp
  show ?thesis
    by (simp add: ViewCallback_def c sample_consts_def payload_of_def sample_parse_def)
qed

text \<open>
  C10. When the document mutex is contended \<^verbatim>\<open>purgeSessions\<close> returns \<open>-1\<close> as a
  \<^verbatim>\<open>size_t\<close>, the largest unsigned value; so \<^verbatim>\<open>hasSessions\<close> returns true and
  \<^verbatim>\<open>canDiscard\<close> returns false without exiting, which is also what \<^verbatim>\<open>canDiscard\<close>
  returns when the mutex is free and a live session exists.
\<close>

theorem purgeSessions_contended:
  assumes "length (sessions d) < 2 ^ 64"
  shows "purgeSessions K False d = Return (- 1) d
   \<and> unat (- 1 :: 64 word) = 2 ^ 64 - 1
   \<and> (\<forall>n :: 64 word. n \<le> - 1)
   \<and> hasSessions K False d = Return True d
   \<and> canDiscard K False d = Return False d
   \<and> (0 < countRunning (sessions d) \<longrightarrow>
        canDiscard K True d = Return False (d\<lparr>sessions := eraseClosed (sessions d)\<rparr>))"
proof -
  have a: "purgeSessions K False d = Return (- 1) d"
    by (simp add: purgeSessions_def)
  have b: "unat (- 1 :: 64 word) = 2 ^ 64 - 1"
    by (simp add: unsigned_minus_1_eq_mask mask_eq_exp_minus_1)
  have c: "hasSessions K False d = Return True d"
    by (simp add: hasSessions_def a)
  have e: "canDiscard K False d = Return False d"
    by (simp add: canDiscard_def c)
  have f: "canDiscard K True d = Return False (d\<lparr>sessions := eraseClosed (sessions d)\<rparr>)"
    if live: "0 < countRunning (sessions d)"
  proof -
    have "length (eraseClosed (sessions d)) = countRunning (sessions d)"
      by (simp add: countRunning_filter eraseClosed_filter)
    moreover have "length (eraseClosed (sessions d)) \<le> length (sessions d)"
      by (simp add: eraseClosed_filter)
    ultimately have "(of_nat (length (eraseClosed (sessions d))) :: 64 word) \<noteq> 0"
      using live assms by (intro of_nat_neq_0) auto
    then show ?thesis using live
      by (simp add: canDiscard_def hasSessions_def purgeSessions_def Let_def)
  qed
  from a b c e f show ?thesis by simp
qed

theorem purgeSessions_contended_witness:
  "length (sessions (sample_document [(''a'', sample_session ''a'' 0 False)])) < 2 ^ 64
   \<and> canDiscard sample_consts False (sample_document [(''a'', sample_session ''a'' 0 False)]) =
       Return False (sample_document [(''a'', sample_session ''a'' 0 False)])
   \<and> canDiscard sample_consts True (sample_document [(''a'', sample_session ''a'' 0 False)]) =
       Return False (sample_document [(''a'', sample_session ''a'' 0 False)])
   \<and> canDiscard sample_consts False (sample_document [(''b'', sample_session ''b'' 1 True)]) =
       Return False (sample_document [(''b'', sample_session ''b'' 1 True)])
   \<and> canDiscard sample_consts True (sample_document [(''b'', sample_session ''b'' 1 True)]) = Exit 0"
proof -
  have h1: "length (sessions (sample_document [(''a'', sample_session ''a'' 0 False)])) < 2 ^ 64"
    by (simp add: sample_document_def)
  have h2: "length (sessions (sample_document [(''b'', sample_session ''b'' 1 True)])) < 2 ^ 64"
    by (simp add: sample_document_def)
  have x: "canDiscard sample_consts True (sample_document [(''b'', sample_session ''b'' 1 True)]) = Exit 0"
    by (simp add: canDiscard_def hasSessions_def purgeSessions_def sample_document_def
        sample_session_def sample_consts_def)
  show ?thesis
    using h1 x purgeSessions_contended [OF h1, of sample_consts] purgeSessions_contended [OF h2, of sample_consts]
    by (simp add: sample_document_def sample_session_def)
qed

end
